theory Spec2Isabelle
  imports Main
begin

section \<open>The values of the host language\<close>

text \<open>
  The library is untyped at run time: a payload of a Result, a value returned by a
  callback and a value thrown are all JavaScript values. The fragment modelled here has
  the primitives and three kinds of objects. Every object carries its address, so that
  two object values are equal in the model only when they are the same object; equality
  of values is therefore identity (\<open>===\<close>), not likeness of structure.
  \<^item> \<open>JNum n\<close> is the Number whose value is the integer \<open>n\<close>, for an \<open>n\<close> that
    a Number holds exactly;
  \<^item> \<open>JStr s\<close> is a string of code units below 256;
  \<^item> \<open>JArray a xs\<close> is the array at address \<open>a\<close> with elements \<open>xs\<close>;
  \<^item> \<open>JObject a ps\<close> is the plain object at \<open>a\<close> whose own enumerable
    properties are \<open>ps\<close>, in the order in which they are enumerated;
  \<^item> \<open>JError a m ps\<close> is an instance of \<open>Error\<close> (or of a subclass) at \<open>a\<close> whose
    \<open>message\<close> is \<open>m\<close>, with own enumerable properties \<open>ps\<close> (none, for an error
    just created by \<open>new Error(m)\<close>: its \<open>message\<close> and \<open>stack\<close> are not enumerable).
\<close>

type_synonym addr = nat

datatype jsval =
    JUndefined
  | JNull
  | JBool bool
  | JNum int
  | JStr string
  | JArray addr "jsval list"
  | JObject addr "(string \<times> jsval) list"
  | JError addr string "(string \<times> jsval) list"

text \<open>
  How the evaluation of an expression ends: with a value, with a thrown value, or not at
  all (an endless loop, or an \<open>await\<close> on a promise that never settles).
\<close>

datatype 'a completion = Returns 'a | Throws jsval | Diverges

text \<open>Sequencing: the rest of a statement runs only when its first part returned.\<close>

fun bind :: "'a completion \<Rightarrow> ('a \<Rightarrow> 'b completion) \<Rightarrow> 'b completion" where
  "bind (Returns x) k = k x"
| "bind (Throws e) k = Throws e"
| "bind Diverges k = Diverges"

text \<open>\<open>try { body } catch (e) { handler }\<close>.\<close>

fun try_catch :: "'a completion \<Rightarrow> (jsval \<Rightarrow> 'a completion) \<Rightarrow> 'a completion" where
  "try_catch (Returns x) handler = Returns x"
| "try_catch (Throws e) handler = handler e"
| "try_catch Diverges handler = Diverges"

text \<open>\<open>a ?? b\<close>: the right operand is taken when the left one is null or undefined.\<close>

fun nullish :: "jsval \<Rightarrow> jsval \<Rightarrow> jsval" where
  "nullish JUndefined b = b"
| "nullish JNull b = b"
| "nullish a b = a"

text \<open>\<open>x instanceof Error\<close>.\<close>

fun instanceof_Error :: "jsval \<Rightarrow> bool" where
  "instanceof_Error (JError a m ps) = True"
| "instanceof_Error v = False"

section \<open>The two variants and their operations\<close>

text \<open>
  An instance of \<open>OkImpl\<close> holds the field \<open>value\<close>, an instance of \<open>ErrImpl\<close> the
  field \<open>error\<close>; the class of an instance is its tag.
\<close>

datatype Result = OkImpl jsval | ErrImpl jsval

definition Ok :: "jsval \<Rightarrow> Result" where
  "Ok val = OkImpl val"

definition Err :: "jsval \<Rightarrow> Result" where
  "Err val = ErrImpl val"

fun isOk :: "Result \<Rightarrow> bool" where
  "isOk (OkImpl v) = True"
| "isOk (ErrImpl e) = False"

fun isError :: "Result \<Rightarrow> bool" where
  "isError (OkImpl v) = False"
| "isError (ErrImpl e) = True"

fun getOrNull :: "Result \<Rightarrow> jsval" where
  "getOrNull (OkImpl v) = v"
| "getOrNull (ErrImpl e) = JNull"

text \<open>\<open>OkImpl.getOrDefault\<close> declares no parameter: an argument passed to it is dropped.\<close>

fun getOrDefault :: "Result \<Rightarrow> jsval \<Rightarrow> jsval" where
  "getOrDefault (OkImpl v) defaultVal = v"
| "getOrDefault (ErrImpl e) defaultVal = defaultVal"

fun getOrThrow :: "Result \<Rightarrow> jsval completion" where
  "getOrThrow (OkImpl v) = Returns v"
| "getOrThrow (ErrImpl e) = Throws e"

fun errorOrNull :: "Result \<Rightarrow> jsval" where
  "errorOrNull (OkImpl v) = JNull"
| "errorOrNull (ErrImpl e) = e"

text \<open>
  A callback is a function from its argument to the completion of its call. The
  arguments of a call are evaluated before the call: \<open>Ok(fn(this.value))\<close> builds the
  new Result only when \<open>fn\<close> returned.
\<close>

fun map_result :: "Result \<Rightarrow> (jsval \<Rightarrow> jsval completion) \<Rightarrow> Result completion" where
  "map_result (OkImpl v) fn = bind (fn v) (\<lambda>y. Returns (Ok y))"
| "map_result (ErrImpl e) fn = Returns (ErrImpl e)"

fun mapError :: "Result \<Rightarrow> (jsval \<Rightarrow> jsval completion) \<Rightarrow> Result completion" where
  "mapError (OkImpl v) fn = Returns (OkImpl v)"
| "mapError (ErrImpl e) fn = bind (fn e) (\<lambda>y. Returns (Err y))"

fun fold_result ::
  "Result \<Rightarrow> (jsval \<Rightarrow> jsval completion) \<Rightarrow> (jsval \<Rightarrow> jsval completion) \<Rightarrow> jsval completion"
where
  "fold_result (OkImpl v) okFn errFn = okFn v"
| "fold_result (ErrImpl e) okFn errFn = errFn e"

section \<open>The adapters\<close>

text \<open>
  \<open>Try\<close> calls \<open>fn\<close> with no argument inside \<open>try\<close>; the \<open>catch\<close> clause binds
  whatever was thrown and passes it to \<open>Err\<close> as it is.
\<close>

definition Try :: "(unit \<Rightarrow> jsval completion) \<Rightarrow> Result completion" where
  "Try fn = try_catch (bind (fn ()) (\<lambda>x. Returns (Ok x))) (\<lambda>e. Returns (Err e))"

text \<open>
  A promise is modelled by how it ends: fulfilled with a value, rejected with a fault,
  or pending for ever. \<open>await p\<close> resumes with the value, throws the fault, or never
  resumes. The promise returned by an \<open>async\<close> function is fulfilled with what its body
  returns and rejected with what its body throws.
\<close>

datatype 'a Promise = Fulfilled 'a | Rejected jsval | Pending

fun await :: "'a Promise \<Rightarrow> 'a completion" where
  "await (Fulfilled x) = Returns x"
| "await (Rejected e) = Throws e"
| "await Pending = Diverges"

fun async :: "'a completion \<Rightarrow> 'a Promise" where
  "async (Returns x) = Fulfilled x"
| "async (Throws e) = Rejected e"
| "async Diverges = Pending"

definition TryAsync :: "(unit \<Rightarrow> jsval Promise completion) \<Rightarrow> Result Promise" where
  "TryAsync fn =
     async (try_catch (bind (bind (fn ()) await) (\<lambda>x. Returns (Ok x)))
                      (\<lambda>e. Returns (Err e)))"

section \<open>Rendering a Result as a string\<close>

text \<open>
  \<open>JSON.stringify(value, null, 2)\<close> belongs to the platform, not to the library. It is
  modelled after the operations of the language standard that carry the same names,
  with no replacer and with the gap of two spaces that the third argument asks for.
\<close>

definition digit :: "nat \<Rightarrow> char" where
  "digit d = ''0123456789'' ! d"

fun digits :: "nat \<Rightarrow> string" where
  "digits n = (if n < 10 then [digit n] else digits (n div 10) @ [digit (n mod 10)])"

declare digits.simps [simp del]

text \<open>The decimal form of an integer Number (of fewer than 22 digits).\<close>

definition Number_toString :: "int \<Rightarrow> string" where
  "Number_toString n = (if n < 0 then CHR ''-'' # digits (nat (- n)) else digits (nat n))"

definition hexdigit :: "nat \<Rightarrow> char" where
  "hexdigit d = ''0123456789abcdef'' ! d"

text \<open>
  A code unit inside a quoted string: the short escapes, the quotation mark, the
  backslash (\<open>0x5C\<close>), \<open>\u00XX\<close> for the other control characters, and the code unit
  itself otherwise.
\<close>

definition QuoteJSONChar :: "char \<Rightarrow> string" where
  "QuoteJSONChar c =
     (if c = CHR 0x08 then [CHR 0x5C, CHR ''b'']
      else if c = CHR 0x09 then [CHR 0x5C, CHR ''t'']
      else if c = CHR 0x0A then [CHR 0x5C, CHR ''n'']
      else if c = CHR 0x0C then [CHR 0x5C, CHR ''f'']
      else if c = CHR 0x0D then [CHR 0x5C, CHR ''r'']
      else if c = CHR 0x22 then [CHR 0x5C, CHR 0x22]
      else if c = CHR 0x5C then [CHR 0x5C, CHR 0x5C]
      else if (of_char c :: nat) < 32
        then [CHR 0x5C, CHR ''u'', CHR ''0'', CHR ''0'',
              hexdigit (of_char c div 16), hexdigit (of_char c mod 16)]
      else [c])"

definition QuoteJSONString :: "string \<Rightarrow> string" where
  "QuoteJSONString s = [CHR 0x22] @ concat (map QuoteJSONChar s) @ [CHR 0x22]"

fun join :: "string \<Rightarrow> string list \<Rightarrow> string" where
  "join sep [] = []"
| "join sep [x] = x"
| "join sep (x # y # ys) = x @ sep @ join sep (y # ys)"

definition gap :: string where
  "gap = ''  ''"

text \<open>
  \<open>SerializeJSONProperty indent v\<close> is \<open>None\<close> where the standard yields
  \<open>undefined\<close>. A property whose value serializes to \<open>undefined\<close> is left out of
  an object; such an element of an array is written \<open>null\<close>. \<open>SerializeJSONObject\<close> and
  \<open>SerializeJSONArray\<close> take the indentation already extended by the gap and the
  properties or elements, and give the list of their renderings; the brackets, the
  separators and the line breaks are put around it at the place of the call.
\<close>

fun SerializeJSONProperty :: "string \<Rightarrow> jsval \<Rightarrow> string option"
and SerializeJSONObject :: "string \<Rightarrow> (string \<times> jsval) list \<Rightarrow> string list"
and SerializeJSONArray :: "string \<Rightarrow> jsval list \<Rightarrow> string list"
where
  "SerializeJSONProperty indent JUndefined = None"
| "SerializeJSONProperty indent JNull = Some ''null''"
| "SerializeJSONProperty indent (JBool b) = Some (if b then ''true'' else ''false'')"
| "SerializeJSONProperty indent (JNum n) = Some (Number_toString n)"
| "SerializeJSONProperty indent (JStr s) = Some (QuoteJSONString s)"
| "SerializeJSONProperty indent (JArray a xs) =
     (let partial = SerializeJSONArray (indent @ gap) xs in
      Some (if partial = [] then ''[]''
            else ''['' @ [CHR 0x0A] @ indent @ gap
                 @ join ('','' @ [CHR 0x0A] @ indent @ gap) partial
                 @ [CHR 0x0A] @ indent @ '']''))"
| "SerializeJSONProperty indent (JObject a ps) =
     (let partial = SerializeJSONObject (indent @ gap) ps in
      Some (if partial = [] then ''{}''
            else ''{'' @ [CHR 0x0A] @ indent @ gap
                 @ join ('','' @ [CHR 0x0A] @ indent @ gap) partial
                 @ [CHR 0x0A] @ indent @ ''}''))"
| "SerializeJSONProperty indent (JError a m ps) =
     (let partial = SerializeJSONObject (indent @ gap) ps in
      Some (if partial = [] then ''{}''
            else ''{'' @ [CHR 0x0A] @ indent @ gap
                 @ join ('','' @ [CHR 0x0A] @ indent @ gap) partial
                 @ [CHR 0x0A] @ indent @ ''}''))"
| "SerializeJSONObject indent [] = []"
| "SerializeJSONObject indent ((k, v) # ps) =
     (case SerializeJSONProperty indent v of
        None \<Rightarrow> SerializeJSONObject indent ps
      | Some strP \<Rightarrow> (QuoteJSONString k @ '': '' @ strP) # SerializeJSONObject indent ps)"
| "SerializeJSONArray indent [] = []"
| "SerializeJSONArray indent (v # xs) =
     (case SerializeJSONProperty indent v of
        None \<Rightarrow> ''null'' # SerializeJSONArray indent xs
      | Some strP \<Rightarrow> strP # SerializeJSONArray indent xs)"

definition JSON_stringify :: "jsval \<Rightarrow> string option" where
  "JSON_stringify v = SerializeJSONProperty [] v"

text \<open>
  A template literal converts what it interpolates to a string: a string stays as it
  is, \<open>undefined\<close> becomes the text \<open>undefined\<close>.
\<close>

fun ToString :: "string option \<Rightarrow> string" where
  "ToString None = ''undefined''"
| "ToString (Some s) = s"

definition resultToString :: "Result \<Rightarrow> string" where
  "resultToString result =
     (let prefix = (if isOk result then ''Ok'' else ''Err'')
      in prefix @ ''('' @ ToString (JSON_stringify (nullish (getOrNull result) (errorOrNull result)))
         @ '')'')"

text \<open>The \<open>message\<close> of an error; it is read on instances of \<open>Error\<close> only.\<close>

fun message :: "jsval \<Rightarrow> string" where
  "message (JError a m ps) = m"

fun toString :: "Result \<Rightarrow> string" where
  "toString (OkImpl v) = resultToString (OkImpl v)"
| "toString (ErrImpl e) =
     (if instanceof_Error e then ''Err('' @ message e @ '')''
      else resultToString (ErrImpl e))"

section \<open>Results as objects on a heap\<close>

text \<open>
  Whether \<open>map\<close> hands back the object it was called on or a new one cannot be told
  from the payloads alone. Here the instances of \<open>OkImpl\<close> and \<open>ErrImpl\<close> live on a
  heap, a list indexed by address; \<open>new\<close> appends the instance and returns its address,
  which no earlier instance has. A method is called on the address \<open>this\<close> of an
  allocated instance and returns, with its completion, the heap it leaves. Callbacks
  compute on payloads as before and do not write to the instances.
\<close>

type_synonym heap = "Result list"

definition new :: "Result \<Rightarrow> heap \<Rightarrow> addr \<times> heap" where
  "new obj h = (length h, h @ [obj])"

definition Ok_h :: "jsval \<Rightarrow> heap \<Rightarrow> addr \<times> heap" where
  "Ok_h val h = new (OkImpl val) h"

definition Err_h :: "jsval \<Rightarrow> heap \<Rightarrow> addr \<times> heap" where
  "Err_h val h = new (ErrImpl val) h"

definition map_h ::
  "addr \<Rightarrow> (jsval \<Rightarrow> jsval completion) \<Rightarrow> heap \<Rightarrow> addr completion \<times> heap" where
  "map_h this fn h =
     (case h ! this of
        OkImpl v \<Rightarrow>
          (case fn v of
             Returns y \<Rightarrow> (let (r, h') = Ok_h y h in (Returns r, h'))
           | Throws e \<Rightarrow> (Throws e, h)
           | Diverges \<Rightarrow> (Diverges, h))
      | ErrImpl e \<Rightarrow> (Returns this, h))"

definition mapError_h ::
  "addr \<Rightarrow> (jsval \<Rightarrow> jsval completion) \<Rightarrow> heap \<Rightarrow> addr completion \<times> heap" where
  "mapError_h this fn h =
     (case h ! this of
        OkImpl v \<Rightarrow> (Returns this, h)
      | ErrImpl e \<Rightarrow>
          (case fn e of
             Returns y \<Rightarrow> (let (r, h') = Err_h y h in (Returns r, h'))
           | Throws e' \<Rightarrow> (Throws e', h)
           | Diverges \<Rightarrow> (Diverges, h)))"

section \<open>Callbacks of the scenarios\<close>

text \<open>\<open>x => x * 2\<close>, \<open>v => v\<close> and \<open>e => -1\<close>; the first is applied to Numbers only.\<close>

fun times2 :: "jsval \<Rightarrow> jsval completion" where
  "times2 (JNum n) = Returns (JNum (n * 2))"

definition same :: "jsval \<Rightarrow> jsval completion" where
  "same v = Returns v"

definition minus1 :: "jsval \<Rightarrow> jsval completion" where
  "minus1 e = Returns (JNum (- 1))"

text \<open>\<open>() => { throw new Error("boom") }\<close>, the error being allocated at \<open>a\<close>.\<close>

definition throws_boom :: "addr \<Rightarrow> unit \<Rightarrow> jsval completion" where
  "throws_boom a u = Throws (JError a ''boom'' [])"

text \<open>\<open>x => { throw x }\<close>.\<close>

definition throws_arg :: "jsval \<Rightarrow> jsval completion" where
  "throws_arg x = Throws x"

section \<open>Properties of the adapters\<close>

text \<open>
  C1. For every zero-argument function \<open>fn\<close>: when \<open>fn()\<close> returns \<open>x\<close>, \<open>Try(fn)\<close>
  returns a Success whose payload is \<open>x\<close>; when \<open>fn()\<close> throws \<open>e\<close>, \<open>Try(fn)\<close>
  returns a Failure whose payload is \<open>e\<close> itself, wrapped in nothing else; and \<open>Try\<close>
  throws nothing to its caller, whatever \<open>fn\<close> does.
\<close>

theorem Try_captures:
  "(fn () = Returns x \<longrightarrow> Try fn = Returns (OkImpl x))
   \<and> (fn () = Throws e \<longrightarrow> Try fn = Returns (ErrImpl e))
   \<and> (\<forall>e'. Try fn \<noteq> Throws e')"
  by (cases "fn ()") (simp_all add: Try_def Ok_def Err_def)

theorem Try_captures_witness:
  "same (JNum 7) = Returns (JNum 7)
   \<and> Try (\<lambda>u. same (JNum 7)) = Returns (OkImpl (JNum 7))
   \<and> throws_boom 1 () = Throws (JError 1 ''boom'' [])
   \<and> Try (throws_boom 1) = Returns (ErrImpl (JError 1 ''boom'' []))"
  using Try_captures [of "\<lambda>u. same (JNum 7)" "JNum 7"]
        Try_captures [of "throws_boom 1" _ "JError 1 ''boom'' []"]
  by (simp add: same_def throws_boom_def)

text \<open>
  C2. For every zero-argument asynchronous function \<open>fn\<close>: the promise returned by
  \<open>TryAsync(fn)\<close> is fulfilled with \<open>Success(x)\<close> when the promise of \<open>fn\<close> is
  fulfilled with \<open>x\<close>, and with \<open>Failure(e)\<close> when that promise is rejected with
  \<open>e\<close> or when \<open>fn\<close> throws \<open>e\<close> before it returns a promise; awaiting it yields
  that Result, and it is never rejected, whatever \<open>fn\<close> does.
\<close>

theorem TryAsync_settles:
  "(fn () = Returns (Fulfilled x) \<longrightarrow>
      TryAsync fn = Fulfilled (OkImpl x) \<and> await (TryAsync fn) = Returns (OkImpl x))
   \<and> (fn () = Returns (Rejected e) \<longrightarrow>
      TryAsync fn = Fulfilled (ErrImpl e) \<and> await (TryAsync fn) = Returns (ErrImpl e))
   \<and> (fn () = Throws e \<longrightarrow>
      TryAsync fn = Fulfilled (ErrImpl e) \<and> await (TryAsync fn) = Returns (ErrImpl e))
   \<and> (\<forall>e'. TryAsync fn \<noteq> Rejected e')"
proof (cases "fn ()")
  case (Returns p)
  then show ?thesis
    by (cases p) (simp_all add: TryAsync_def Ok_def Err_def)
next
  case (Throws e')
  then show ?thesis
    by (simp add: TryAsync_def Err_def)
next
  case Diverges
  then show ?thesis
    by (simp add: TryAsync_def)
qed

theorem TryAsync_settles_witness:
  "TryAsync (\<lambda>u. Returns (Fulfilled (JStr ''data''))) = Fulfilled (OkImpl (JStr ''data''))
   \<and> TryAsync (\<lambda>u. Returns (Rejected (JError 2 ''Failed to fetch cat facts'' [])))
       = Fulfilled (ErrImpl (JError 2 ''Failed to fetch cat facts'' []))
   \<and> TryAsync (\<lambda>u. Throws (JStr ''early'')) = Fulfilled (ErrImpl (JStr ''early''))"
  using TryAsync_settles [of "\<lambda>u. Returns (Fulfilled (JStr ''data''))" "JStr ''data''"]
        TryAsync_settles [of "\<lambda>u. Returns (Rejected (JError 2 ''Failed to fetch cat facts'' []))"
                             _ "JError 2 ''Failed to fetch cat facts'' []"]
        TryAsync_settles [of "\<lambda>u. Throws (JStr ''early'')" _ "JStr ''early''"]
  by simp

section \<open>Properties of the two variants\<close>

text \<open>
  C3. For all values \<open>v\<close>, \<open>e\<close> and any fallback \<open>d\<close>: \<open>Success(v)\<close> has
  \<open>isOk\<close> true, \<open>isError\<close> false, \<open>getOrNull()\<close> equal to \<open>v\<close>,
  \<open>errorOrNull()\<close> null and \<open>getOrDefault(d)\<close> equal to \<open>v\<close>; \<open>Failure(e)\<close> has
  \<open>isOk\<close> false, \<open>isError\<close> true, \<open>getOrNull()\<close> null, \<open>errorOrNull()\<close> equal
  to \<open>e\<close> and \<open>getOrDefault(d)\<close> equal to \<open>d\<close>.
\<close>

theorem inspectors:
  "isOk (Ok v) \<and> \<not> isError (Ok v) \<and> getOrNull (Ok v) = v \<and> errorOrNull (Ok v) = JNull
   \<and> getOrDefault (Ok v) d = v
   \<and> \<not> isOk (Err e) \<and> isError (Err e) \<and> getOrNull (Err e) = JNull \<and> errorOrNull (Err e) = e
   \<and> getOrDefault (Err e) d = d"
  by (simp add: Ok_def Err_def)

text \<open>
  C4. \<open>getOrThrow()\<close> on \<open>Success(v)\<close> returns \<open>v\<close> and throws nothing;
  on \<open>Failure(e)\<close> it throws the stored payload \<open>e\<close> itself, the same value and,
  for an object, the same object, wrapped in nothing.
\<close>

theorem getOrThrow_rethrows:
  "getOrThrow (Ok v) = Returns v \<and> getOrThrow (Err e) = Throws e"
  by (simp add: Ok_def Err_def)

text \<open>
  Mapping twice is mapping once with the composed callback, also when a callback
  throws or does not return: the second callback runs only on what the first returned.
\<close>

lemma map_result_compose:
  "bind (map_result r f) (\<lambda>r'. map_result r' g) = map_result r (\<lambda>x. bind (f x) g)"
proof (cases r)
  case (OkImpl v)
  then show ?thesis by (cases "f v") (simp_all add: Ok_def)
next
  case (ErrImpl e)
  then show ?thesis by simp
qed

lemma mapError_compose:
  "bind (mapError r f) (\<lambda>r'. mapError r' g) = mapError r (\<lambda>x. bind (f x) g)"
proof (cases r)
  case (OkImpl v)
  then show ?thesis by simp
next
  case (ErrImpl e)
  then show ?thesis by (cases "f e") (simp_all add: Err_def)
qed

text \<open>
  C5. For all \<open>v\<close>, \<open>e\<close> and all functions \<open>f\<close>, \<open>g\<close> that return without
  throwing: \<open>Success(v).map(f).map(g)\<close> equals \<open>Success(v).map(x => g(f(x)))\<close>;
  \<open>Failure(e).map(k)\<close> is \<open>Failure(e)\<close> for every callback \<open>k\<close>, even one that
  would throw, so \<open>k\<close> is not applied; \<open>Failure(e).mapError(f)\<close> is
  \<open>Failure(f(e))\<close>, with the same law of composition; and \<open>Success(v).mapError(k)\<close>
  is \<open>Success(v)\<close> for every \<open>k\<close>.
\<close>

theorem functor_laws:
  "bind (map_result (Ok v) (\<lambda>x. Returns (f x))) (\<lambda>r. map_result r (\<lambda>x. Returns (g x)))
     = map_result (Ok v) (\<lambda>x. Returns (g (f x)))
   \<and> map_result (Ok v) (\<lambda>x. Returns (f x)) = Returns (Ok (f v))
   \<and> map_result (Err e) k = Returns (Err e)
   \<and> mapError (Err e) (\<lambda>x. Returns (f x)) = Returns (Err (f e))
   \<and> bind (mapError (Err e) (\<lambda>x. Returns (f x))) (\<lambda>r. mapError r (\<lambda>x. Returns (g x)))
     = mapError (Err e) (\<lambda>x. Returns (g (f x)))
   \<and> mapError (Ok v) k = Returns (Ok v)"
  by (simp add: map_result_compose mapError_compose Ok_def Err_def)

text \<open>
  C7. \<open>Success(v).fold(ok, err)\<close> is \<open>ok(v)\<close> and \<open>Failure(e).fold(ok, err)\<close>
  is \<open>err(e)\<close>, for all callbacks; and
  \<open>Ok(42).map(x => x * 2).fold(v => v, e => -1)\<close> is 84.
\<close>

theorem fold_applies:
  "fold_result (Ok v) okFn errFn = okFn v
   \<and> fold_result (Err e) okFn errFn = errFn e
   \<and> bind (map_result (Ok (JNum 42)) times2) (\<lambda>r. fold_result r same minus1)
       = Returns (JNum 84)"
  by (simp add: Ok_def Err_def same_def)

text \<open>
  C8. When \<open>f\<close> throws \<open>e\<close> on \<open>v\<close>, \<open>Success(v).map(f)\<close> throws \<open>e\<close> to its
  caller: the fault is not turned into a Failure, as it is when the same call is made
  under \<open>Try\<close>.
\<close>

theorem map_propagates:
  "fn v = Throws e \<Longrightarrow>
     map_result (Ok v) fn = Throws e \<and> Try (\<lambda>u. fn v) = Returns (Err e)"
  by (simp add: Ok_def Err_def Try_def)

theorem map_propagates_witness:
  "throws_arg (JStr ''bad'') = Throws (JStr ''bad'')
   \<and> map_result (Ok (JStr ''bad'')) throws_arg = Throws (JStr ''bad'')"
  using map_propagates [of throws_arg "JStr ''bad''" "JStr ''bad''"]
  by (simp add: throws_arg_def)

section \<open>Properties of the rendering\<close>

lemma resultToString_Ok:
  "resultToString (OkImpl v) = ''Ok('' @ ToString (JSON_stringify (nullish v JNull)) @ '')''"
  by (simp add: resultToString_def)

lemma resultToString_Err:
  "resultToString (ErrImpl e) = ''Err('' @ ToString (JSON_stringify e) @ '')''"
  by (simp add: resultToString_def)

lemma nullish_JNull_stringify:
  "v \<noteq> JUndefined \<Longrightarrow> JSON_stringify (nullish v JNull) = JSON_stringify v"
  by (cases v) simp_all

lemma stringify_message_object:
  "JSON_stringify (JObject a [(''message'', JStr ''boom'')])
     = Some (''{'' @ [CHR 0x0A] @ ''  '' @ [CHR 0x22] @ ''message'' @ [CHR 0x22] @ '': ''
             @ [CHR 0x22] @ ''boom'' @ [CHR 0x22] @ [CHR 0x0A] @ ''}'')"
  by (simp add: JSON_stringify_def gap_def QuoteJSONString_def QuoteJSONChar_def)

lemma stringify_string:
  "JSON_stringify (JStr ''oops'') = Some ([CHR 0x22] @ ''oops'' @ [CHR 0x22])"
  by (simp add: JSON_stringify_def QuoteJSONString_def QuoteJSONChar_def)

lemma stringify_84:
  "JSON_stringify (JNum 84) = Some ''84''"
  by (simp add: JSON_stringify_def Number_toString_def digits.simps [of 84] digits.simps [of 8]
                digit_def)

text \<open>
  C6, as it is worded, says that a Failure renders as \<open>Err(<message>)\<close> whenever its
  payload has a \<open>message\<close>. A plain object with a \<open>message\<close> property is not an
  instance of \<open>Error\<close>: it is rendered by the serializer.
\<close>

theorem toString_message_counterexample:
  "toString (Err (JObject 0 [(''message'', JStr ''boom'')]))
     = ''Err({'' @ [CHR 0x0A] @ ''  '' @ [CHR 0x22] @ ''message'' @ [CHR 0x22] @ '': ''
       @ [CHR 0x22] @ ''boom'' @ [CHR 0x22] @ [CHR 0x0A] @ ''})''
   \<and> toString (Err (JObject 0 [(''message'', JStr ''boom'')])) \<noteq> ''Err(boom)''"
  by (simp add: Err_def resultToString_Err stringify_message_object)

text \<open>
  C6, amended. \<open>toString()\<close> on a Success renders \<open>Ok(\<close>, the serialization of the
  value, \<open>)\<close>, where a value that is null or undefined is serialized as null (for
  every value but \<open>undefined\<close> this is the serialization of the value itself). On a
  Failure whose payload is an instance of \<open>Error\<close> it renders \<open>Err(<message>)\<close>; in
  particular the Failure that \<open>Try\<close> makes of a function throwing
  \<open>new Error("boom")\<close> renders \<open>Err(boom)\<close>. On a Failure with any other payload,
  a plain object with a \<open>message\<close> property included, it renders \<open>Err(\<close>, the
  serialization of the payload, \<open>)\<close>.
\<close>

theorem toString_renders:
  "toString (Ok v) = ''Ok('' @ ToString (JSON_stringify (nullish v JNull)) @ '')''
   \<and> (v \<noteq> JUndefined \<longrightarrow> toString (Ok v) = ''Ok('' @ ToString (JSON_stringify v) @ '')'')
   \<and> (instanceof_Error e \<longrightarrow> toString (Err e) = ''Err('' @ message e @ '')'')
   \<and> bind (Try (throws_boom a)) (\<lambda>r. Returns (toString r)) = Returns ''Err(boom)''
   \<and> (\<not> instanceof_Error e \<longrightarrow>
        toString (Err e) = ''Err('' @ ToString (JSON_stringify e) @ '')'')"
  by (simp add: Ok_def Err_def resultToString_Ok resultToString_Err nullish_JNull_stringify
                Try_def throws_boom_def)

theorem toString_renders_witness:
  "toString (Ok (JNum 84)) = ''Ok(84)''
   \<and> toString (Err (JError 3 ''Local operation failed'' [])) = ''Err(Local operation failed)''
   \<and> toString (Err (JStr ''oops'')) = ''Err('' @ [CHR 0x22] @ ''oops'' @ [CHR 0x22] @ '')''"
  using toString_renders [of "JNum 84" "JError 3 ''Local operation failed'' []"]
        toString_renders [of _ "JStr ''oops''"]
  by (simp add: stringify_84 stringify_string)

text \<open>
  C10. When the wrapped function throws a value \<open>e\<close> that is not an instance of
  \<open>Error\<close> (a string, a plain object with a \<open>message\<close> property), \<open>Try\<close> returns
  a Failure whose payload is \<open>e\<close> itself, and \<open>toString()\<close> on that Failure goes
  through \<open>resultToString\<close> and renders the serialization of \<open>e\<close>, not a message.
\<close>

theorem Try_keeps_raw_fault:
  "\<not> instanceof_Error e \<Longrightarrow> fn () = Throws e \<Longrightarrow>
     Try fn = Returns (Err e) \<and> errorOrNull (Err e) = e
     \<and> toString (Err e) = resultToString (Err e)
     \<and> toString (Err e) = ''Err('' @ ToString (JSON_stringify e) @ '')''"
  by (simp add: Try_def Err_def resultToString_Err)

theorem Try_keeps_raw_fault_witness:
  "Try (\<lambda>u. throws_arg (JStr ''oops'')) = Returns (Err (JStr ''oops''))
   \<and> toString (Err (JStr ''oops'')) = ''Err('' @ [CHR 0x22] @ ''oops'' @ [CHR 0x22] @ '')''
   \<and> Try (\<lambda>u. throws_arg (JObject 5 [(''message'', JStr ''boom'')]))
       = Returns (Err (JObject 5 [(''message'', JStr ''boom'')]))
   \<and> toString (Err (JObject 5 [(''message'', JStr ''boom'')]))
       = ''Err({'' @ [CHR 0x0A] @ ''  '' @ [CHR 0x22] @ ''message'' @ [CHR 0x22] @ '': ''
         @ [CHR 0x22] @ ''boom'' @ [CHR 0x22] @ [CHR 0x0A] @ ''})''"
  using Try_keeps_raw_fault [of "JStr ''oops''" "\<lambda>u. throws_arg (JStr ''oops'')"]
        Try_keeps_raw_fault [of "JObject 5 [(''message'', JStr ''boom'')]"
                                "\<lambda>u. throws_arg (JObject 5 [(''message'', JStr ''boom'')])"]
  by (simp add: throws_arg_def Err_def resultToString_Err stringify_string
                stringify_message_object)

section \<open>Properties of the instances on the heap\<close>

text \<open>
  What \<open>map\<close> and \<open>mapError\<close> return on the heap is, read through the address
  returned, what they return on payloads.
\<close>

lemma map_h_value:
  "this < length h \<Longrightarrow>
     map_completion (\<lambda>r. snd (map_h this fn h) ! r) (fst (map_h this fn h))
       = map_result (h ! this) fn"
  by (cases "h ! this"; cases "fn (getOrNull (h ! this))")
     (simp_all add: map_h_def Ok_h_def new_def Ok_def)

lemma mapError_h_value:
  "this < length h \<Longrightarrow>
     map_completion (\<lambda>r. snd (mapError_h this fn h) ! r) (fst (mapError_h this fn h))
       = mapError (h ! this) fn"
  by (cases "h ! this"; cases "fn (errorOrNull (h ! this))")
     (simp_all add: mapError_h_def Err_h_def new_def Err_def)

text \<open>
  C9, as it is worded, says that \<open>map\<close> always produces a new Result. Called on a
  Failure, \<open>map\<close> returns \<open>this\<close>: the address of the source, with nothing allocated.
\<close>

theorem map_returns_source_counterexample:
  "map_h 0 times2 [ErrImpl (JStr ''Division by zero'')]
     = (Returns 0, [ErrImpl (JStr ''Division by zero'')])"
  by (simp add: map_h_def)


text \<open>
  C9, amended. \<open>map\<close> and \<open>mapError\<close> never change the instance they are called
  on, nor any other instance allocated before: after the call the source has the tag
  and the payload it had. On the side that holds a payload to transform (\<open>map\<close> on a
  Success, \<open>mapError\<close> on a Failure) a callback that returns makes them allocate a new
  instance and return its address; on the other side they return the source itself.
\<close>

theorem map_h_frame:
  assumes "this < length h"
  shows "take (length h) (snd (map_h this fn h)) = h
     \<and> take (length h) (snd (mapError_h this fn h)) = h
     \<and> snd (map_h this fn h) ! this = h ! this
     \<and> snd (mapError_h this fn h) ! this = h ! this
     \<and> (\<forall>v y. h ! this = OkImpl v \<and> fn v = Returns y \<longrightarrow>
           map_h this fn h = (Returns (length h), h @ [OkImpl y]))
     \<and> (\<forall>e. h ! this = ErrImpl e \<longrightarrow> map_h this fn h = (Returns this, h))
     \<and> (\<forall>e y. h ! this = ErrImpl e \<and> fn e = Returns y \<longrightarrow>
           mapError_h this fn h = (Returns (length h), h @ [ErrImpl y]))
     \<and> (\<forall>v. h ! this = OkImpl v \<longrightarrow> mapError_h this fn h = (Returns this, h))"
proof -
  have m: "snd (map_h this fn h) = h \<or> (\<exists>obj. snd (map_h this fn h) = h @ [obj])"
    by (simp add: map_h_def Ok_h_def new_def split: Result.split completion.split)
  have e: "snd (mapError_h this fn h) = h \<or> (\<exists>obj. snd (mapError_h this fn h) = h @ [obj])"
    by (simp add: mapError_h_def Err_h_def new_def split: Result.split completion.split)
  have "take (length h) (snd (map_h this fn h)) = h"
    using m by auto
  moreover have "take (length h) (snd (mapError_h this fn h)) = h"
    using e by auto
  moreover have "snd (map_h this fn h) ! this = h ! this"
    using m assms by (auto simp: nth_append)
  moreover have "snd (mapError_h this fn h) ! this = h ! this"
    using e assms by (auto simp: nth_append)
  moreover have "\<forall>v y. h ! this = OkImpl v \<and> fn v = Returns y \<longrightarrow>
           map_h this fn h = (Returns (length h), h @ [OkImpl y])"
    by (simp add: map_h_def Ok_h_def new_def)
  moreover have "\<forall>e. h ! this = ErrImpl e \<longrightarrow> map_h this fn h = (Returns this, h)"
    by (simp add: map_h_def)
  moreover have "\<forall>e y. h ! this = ErrImpl e \<and> fn e = Returns y \<longrightarrow>
           mapError_h this fn h = (Returns (length h), h @ [ErrImpl y])"
    by (simp add: mapError_h_def Err_h_def new_def)
  moreover have "\<forall>v. h ! this = OkImpl v \<longrightarrow> mapError_h this fn h = (Returns this, h)"
    by (simp add: mapError_h_def)
  ultimately show ?thesis by blast
qed

theorem map_h_frame_witness:
  "(0::nat) < length [OkImpl (JNum 42)]
   \<and> map_h 0 times2 [OkImpl (JNum 42)] = (Returns 1, [OkImpl (JNum 42), OkImpl (JNum 84)])
   \<and> mapError_h 0 times2 [OkImpl (JNum 42)] = (Returns 0, [OkImpl (JNum 42)])"
  using map_h_frame [of 0 "[OkImpl (JNum 42)]" times2]
  by simp

end
